theory Spec2Isabelle
  imports Complex_Main "HOL-Library.Word"
begin

section \<open>The fall detector of gyro\_MPU\_6050\_logic.ino\<close>

text \<open>
  The sketch keeps its state in global variables and advances it in \<open>loop()\<close>.
  The model passes the globals explicitly as a record and returns, beside the new
  globals, the lines written with \<open>Serial.println\<close> during the call.

  \<^item> \<open>unsigned long\<close> is a 32-bit word: subtraction wraps and comparison is unsigned.
  \<^item> \<open>float\<close> is idealised as \<open>real\<close>: rounding, infinities and NaN are not modelled.
    The sketch computes in binary32 (and, where \<open>double\<close> is wider, compares with
    double constants), so a computed magnitude can fall on the other side of a threshold
    than its exact value when the two are within rounding distance. What is proved here
    about a comparison is proved of the exact values; no statement of this theory says on
    which side of a threshold the program puts a value that close to it.
  \<^item> \<open>abs\<close> is the Arduino macro \<open>((x)>0?(x):-(x))\<close>, so on a float it is the
    absolute value of the float.
  \<^item> Every call of \<open>micros()\<close> and \<open>millis()\<close> is a separate input, named by the
    source line of the call, so that nothing is assumed about the time that passes
    inside one call of \<open>loop()\<close>.
\<close>

subsection \<open>Tunable parameters\<close>

type_synonym ulong = "32 word"

definition SAMPLE_RATE_HZ :: int where
  "SAMPLE_RATE_HZ = 200"

definition IMPACT_THRESHOLD_G :: real where
  "IMPACT_THRESHOLD_G = 2.8"

definition ANGLE_THRESHOLD_DEG :: real where
  "ANGLE_THRESHOLD_DEG = 45.0"

definition MOTION_THRESHOLD :: real where
  "MOTION_THRESHOLD = 0.15"

definition INACTIVITY_TIME_MS :: ulong where
  "INACTIVITY_TIME_MS = 3000"

definition IMPACT_TIMEOUT_MS :: ulong where
  "IMPACT_TIMEOUT_MS = 6000"

subsection \<open>State machine and globals\<close>

datatype FallState = NORMAL | IMPACT_DETECTED | POST_FALL

text \<open>
  The global variables of the sketch. \<open>lastTime\<close> is the function-level static of
  \<open>loop()\<close>; it is \<open>None\<close> until the first execution of its declaration initialises it.
\<close>

record globals =
  state :: FallState
  lastSampleMicros :: ulong
  impactTime :: ulong
  stillStartTime :: ulong
  pitch :: real
  roll :: real
  pitchBefore :: real
  rollBefore :: real
  lastTime :: "ulong option"

definition initial_globals :: globals where
  "initial_globals =
     \<lparr> state = NORMAL, lastSampleMicros = 0, impactTime = 0, stillStartTime = 0,
       pitch = 0, roll = 0, pitchBefore = 0, rollBefore = 0, lastTime = None \<rparr>"

text \<open>
  What one call of \<open>loop()\<close> reads from the hardware: the clock at each of its call
  sites and the sensor event returned by \<open>mpu.getEvent\<close> (accelerations in m/s^2,
  angular rates in rad/s).
\<close>

record reading =
  micros_l51 :: ulong
  micros_l54 :: ulong
  micros_l85 :: ulong
  micros_l86 :: ulong
  micros_l87 :: ulong
  millis_l97 :: ulong
  millis_l111 :: ulong
  millis_l113 :: ulong
  millis_l122 :: ulong
  accel_x :: real
  accel_y :: real
  accel_z :: real
  gyro_x :: real
  gyro_y :: real
  gyro_z :: real

subsection \<open>Magnitudes and accelerometer angles\<close>

text \<open>
  \<open>accelMag\<close> and \<open>gyroMag\<close> are the exact values of the expressions of lines 60 to 70.
  In the sketch every product, sum, square root and quotient is rounded, and the result is
  stored in a \<open>float\<close>; the exact value and the stored one differ by a few units in the
  last place.
\<close>

definition accelMag :: "reading \<Rightarrow> real" where
  "accelMag e =
     sqrt (accel_x e * accel_x e + accel_y e * accel_y e + accel_z e * accel_z e) / 9.81"

definition gyroMag :: "reading \<Rightarrow> real" where
  "gyroMag e = \<bar>gyro_x e\<bar> + \<bar>gyro_y e\<bar> + \<bar>gyro_z e\<bar>"

text \<open>
  The C library's \<open>atan2(y, x)\<close> over the reals: the angle, in \<open>(-pi, pi]\<close>, of the
  point \<open>(x, y)\<close>, with \<open>atan2(0, 0) = 0\<close>.
\<close>

definition atan2 :: "real \<Rightarrow> real \<Rightarrow> real" where
  "atan2 y x =
     (if 0 < x then arctan (y / x)
      else if x < 0 then (if 0 \<le> y then arctan (y / x) + pi else arctan (y / x) - pi)
      else if 0 < y then pi / 2
      else if y < 0 then - (pi / 2)
      else 0)"

definition pitchAcc :: "reading \<Rightarrow> real" where
  "pitchAcc e =
     atan2 (accel_x e) (sqrt (accel_y e * accel_y e + accel_z e * accel_z e)) * 57.2958"

definition rollAcc :: "reading \<Rightarrow> real" where
  "rollAcc e = atan2 (accel_y e) (accel_z e) * 57.2958"

subsection \<open>Complementary filter\<close>

text \<open>
  \<open>dt\<close> is the wrapped difference of two clock readings in microseconds, converted to
  seconds. On the first pass the static \<open>lastTime\<close> is initialised by the call of
  \<open>micros()\<close> in its declaration.
\<close>

definition dt :: "globals \<Rightarrow> reading \<Rightarrow> real" where
  "dt g e =
     real (unat (micros_l86 e - (case lastTime g of None \<Rightarrow> micros_l85 e | Some t \<Rightarrow> t)))
       / 1000000.0"

definition complementary_filter :: "globals \<Rightarrow> reading \<Rightarrow> globals" where
  "complementary_filter g e =
     g \<lparr> lastTime := Some (micros_l87 e),
         pitch := 0.98 * (pitch g + gyro_y e * dt g e * 57.2958) + 0.02 * pitchAcc e,
         roll := 0.98 * (roll g + gyro_x e * dt g e * 57.2958) + 0.02 * rollAcc e \<rparr>"

subsection \<open>The state machine\<close>

definition triggerFall :: "string list" where
  "triggerFall = [''!!! FALL DETECTED !!!'']"

text \<open>Lines 106 to 120: the angle test, the stillness timer and the confirmation.\<close>

definition stillness_check :: "globals \<Rightarrow> reading \<Rightarrow> globals \<times> string list" where
  "stillness_check g e =
     (if \<bar>pitch g - pitchBefore g\<bar> > ANGLE_THRESHOLD_DEG \<or>
         \<bar>roll g - rollBefore g\<bar> > ANGLE_THRESHOLD_DEG
      then
        (if gyroMag e < MOTION_THRESHOLD
         then
           (let g1 = (if stillStartTime g = 0 then g \<lparr> stillStartTime := millis_l111 e \<rparr> else g)
            in if millis_l113 e - stillStartTime g1 > INACTIVITY_TIME_MS
               then (g1 \<lparr> state := POST_FALL \<rparr>, triggerFall)
               else (g1, []))
         else (g \<lparr> stillStartTime := 0 \<rparr>, []))
      else (g, []))"

text \<open>Lines 122 to 125: the impact timeout.\<close>

definition timeout_check :: "globals \<Rightarrow> reading \<Rightarrow> globals" where
  "timeout_check g e =
     (if millis_l122 e - impactTime g > IMPACT_TIMEOUT_MS
      then g \<lparr> state := NORMAL, stillStartTime := 0 \<rparr>
      else g)"

definition state_machine :: "globals \<Rightarrow> reading \<Rightarrow> globals \<times> string list" where
  "state_machine g e =
     (case state g of
        NORMAL \<Rightarrow>
          (if accelMag e > IMPACT_THRESHOLD_G
           then (g \<lparr> impactTime := millis_l97 e, pitchBefore := pitch g,
                     rollBefore := roll g, state := IMPACT_DETECTED \<rparr>,
                 [''IMPACT detected''])
           else (g, []))
      | IMPACT_DETECTED \<Rightarrow>
          (case stillness_check g e of (g1, out) \<Rightarrow> (timeout_check g1 e, out))
      | POST_FALL \<Rightarrow>
          (if gyroMag e > MOTION_THRESHOLD * 2
           then (g \<lparr> state := NORMAL, stillStartTime := 0 \<rparr>, [])
           else (g, [])))"

subsection \<open>One call of loop()\<close>

text \<open>
  The sample-rate gate of line 51. \<open>1000000 / SAMPLE_RATE_HZ\<close> is an integer division;
  the comparison is between unsigned longs.
\<close>

definition gate_closed :: "globals \<Rightarrow> reading \<Rightarrow> bool" where
  "gate_closed g e \<longleftrightarrow>
     micros_l51 e - lastSampleMicros g < word_of_int (1000000 div SAMPLE_RATE_HZ)"

text \<open>
  The globals as the state machine sees them: after the sample stamp of line 54 and the
  filter update of lines 85 to 90.
\<close>

definition estimate :: "globals \<Rightarrow> reading \<Rightarrow> globals" where
  "estimate g e = complementary_filter (g \<lparr> lastSampleMicros := micros_l54 e \<rparr>) e"

definition loop :: "globals \<Rightarrow> reading \<Rightarrow> globals \<times> string list" where
  "loop g e = (if gate_closed g e then (g, []) else state_machine (estimate g e) e)"

text \<open>The globals after one call, and the lines the call prints.\<close>

abbreviation after :: "globals \<Rightarrow> reading \<Rightarrow> globals" where
  "after g e \<equiv> fst (loop g e)"

abbreviation printed :: "globals \<Rightarrow> reading \<Rightarrow> string list" where
  "printed g e \<equiv> snd (loop g e)"

text \<open>Successive calls of \<open>loop()\<close>, one per reading, with the lines they print.\<close>

fun run :: "globals \<Rightarrow> reading list \<Rightarrow> globals \<times> string list" where
  "run g [] = (g, [])"
| "run g (e # es) =
     (case loop g e of (g1, out1) \<Rightarrow>
        (case run g1 es of (g2, out2) \<Rightarrow> (g2, out1 @ out2)))"

definition fall_events :: "string list \<Rightarrow> nat" where
  "fall_events out = length (filter (\<lambda>l. l = ''!!! FALL DETECTED !!!'') out)"

subsection \<open>setup() and the sketch as a whole\<close>

text \<open>
  \<open>while (1);\<close> of line 39: a loop with an empty body and a condition that is always
  true. Not returning is the value \<open>None\<close>.
\<close>

partial_function (option) spin_forever :: "unit \<Rightarrow> unit option" where
  "spin_forever u = spin_forever u"

text \<open>
  \<open>setup()\<close> (named \<open>setup_fn\<close> here, \<open>setup\<close> being a keyword), given the result of
  \<open>mpu.begin()\<close>. It is \<open>void\<close>. The model gives the lines it prints, whether it returns
  or not, and the globals when it returns (\<open>None\<close> when it does not). On a failed
  \<open>mpu.begin()\<close> the line of line 38 is printed before the loop of line 39 is entered.
  The configuration calls on the sensor after a successful \<open>mpu.begin()\<close> do not touch
  the globals and are left out.
\<close>

definition setup_fn :: "bool \<Rightarrow> string list \<times> globals option" where
  "setup_fn mpu_begin =
     (if \<not> mpu_begin
      then (case spin_forever () of
              None \<Rightarrow> ([''MPU6050 not found!''], None)
            | Some _ \<Rightarrow>
                ([''MPU6050 not found!'', ''Fall detection ready''], Some initial_globals))
      else ([''Fall detection ready''], Some initial_globals))"

text \<open>
  The Arduino runtime calls \<open>setup()\<close> once and, when it has returned, \<open>loop()\<close> again
  and again; here \<open>loop()\<close> is called once per reading of the list. The result is the
  lines printed and the globals reached (\<open>None\<close> when \<open>setup()\<close> never returned, and
  then no call of \<open>loop()\<close> is made).
\<close>

definition sketch :: "bool \<Rightarrow> reading list \<Rightarrow> string list \<times> globals option" where
  "sketch mpu_begin es =
     (case setup_fn mpu_begin of
        (out0, None) \<Rightarrow> (out0, None)
      | (out0, Some g) \<Rightarrow> (case run g es of (g', out) \<Rightarrow> (out0 @ out, Some g')))"

subsection \<open>Conditions and counters used in the statements\<close>

text \<open>The angle condition of lines 106 and 107.\<close>

definition angle_changed :: "globals \<Rightarrow> bool" where
  "angle_changed g \<longleftrightarrow>
     \<bar>pitch g - pitchBefore g\<bar> > ANGLE_THRESHOLD_DEG \<or>
     \<bar>roll g - rollBefore g\<bar> > ANGLE_THRESHOLD_DEG"

text \<open>
  The path condition of line 114: the angle condition, stillness, and the inactivity time
  elapsed since the timer start (which line 111 sets first when the timer is unset).
\<close>

definition confirmation_fires :: "globals \<Rightarrow> reading \<Rightarrow> bool" where
  "confirmation_fires g e \<longleftrightarrow>
     angle_changed g \<and> gyroMag e < MOTION_THRESHOLD \<and>
     millis_l113 e - (if stillStartTime g = 0 then millis_l111 e else stillStartTime g)
       > INACTIVITY_TIME_MS"

text \<open>The condition of line 122.\<close>

definition timeout_fires :: "globals \<Rightarrow> reading \<Rightarrow> bool" where
  "timeout_fires g e \<longleftrightarrow> millis_l122 e - impactTime g > IMPACT_TIMEOUT_MS"

text \<open>The number of passes of a run that take the machine from NORMAL to IMPACT\_DETECTED.\<close>

fun impacts :: "globals \<Rightarrow> reading list \<Rightarrow> nat" where
  "impacts g [] = 0"
| "impacts g (e # es) =
     (if state g = NORMAL \<and> state (fst (loop g e)) = IMPACT_DETECTED then 1 else 0)
       + impacts (fst (loop g e)) es"

text \<open>
  A stretch of one impact episode: every pass of the run starts in IMPACT\_DETECTED
  (only the last one may leave it).
\<close>

fun episode :: "globals \<Rightarrow> reading list \<Rightarrow> bool" where
  "episode g [] = True"
| "episode g (e # es) \<longleftrightarrow> state g = IMPACT_DETECTED \<and> episode (fst (loop g e)) es"

text \<open>
  The specification's "auxiliary fields reset to empty", read on the globals of the
  sketch: every field holds its initial value, which for \<open>stillStartTime\<close> is the
  value the code itself tests for "unset".
\<close>

definition spec_aux_fields_cleared :: "globals \<Rightarrow> bool" where
  "spec_aux_fields_cleared g \<longleftrightarrow>
     impactTime g = 0 \<and> pitchBefore g = 0 \<and> rollBefore g = 0 \<and> stillStartTime g = 0"

text \<open>
  The orientation update as the specification words it, with the factor \<open>180 / pi\<close>,
  from the previous angle, the reading and the elapsed time in seconds.
\<close>

definition spec_pitch :: "real \<Rightarrow> reading \<Rightarrow> real \<Rightarrow> real" where
  "spec_pitch pitch_prev e elapsed =
     0.98 * (pitch_prev + gyro_y e * elapsed * (180 / pi))
     + 0.02 * (atan2 (accel_x e) (sqrt ((accel_y e)\<^sup>2 + (accel_z e)\<^sup>2)) * (180 / pi))"

definition spec_roll :: "real \<Rightarrow> reading \<Rightarrow> real \<Rightarrow> real" where
  "spec_roll roll_prev e elapsed =
     0.98 * (roll_prev + gyro_x e * elapsed * (180 / pi))
     + 0.02 * (atan2 (accel_y e) (accel_z e) * (180 / pi))"

subsection \<open>Concrete readings for the examples\<close>

text \<open>
  A reading taken at millisecond \<open>ms\<close>: every \<open>millis()\<close> call of the pass returns
  \<open>ms\<close> and every \<open>micros()\<close> call \<open>1000 * ms\<close>; the acceleration is \<open>(0, 0, az)\<close> and
  the angular rate \<open>(gx, gy, gz)\<close>.
\<close>

definition reading_at :: "ulong \<Rightarrow> real \<Rightarrow> real \<Rightarrow> real \<Rightarrow> real \<Rightarrow> reading" where
  "reading_at ms az gx gy gz =
     \<lparr> micros_l51 = 1000 * ms, micros_l54 = 1000 * ms, micros_l85 = 1000 * ms,
       micros_l86 = 1000 * ms, micros_l87 = 1000 * ms,
       millis_l97 = ms, millis_l111 = ms, millis_l113 = ms, millis_l122 = ms,
       accel_x = 0, accel_y = 0, accel_z = az,
       gyro_x = gx, gyro_y = gy, gyro_z = gz \<rparr>"

text \<open>A state in the middle of an impact episode, for the examples.\<close>

definition impact_globals :: "ulong \<Rightarrow> ulong \<Rightarrow> real \<Rightarrow> globals" where
  "impact_globals t_impact t_still p =
     \<lparr> state = IMPACT_DETECTED, lastSampleMicros = 0, impactTime = t_impact,
       stillStartTime = t_still, pitch = p, roll = 0, pitchBefore = 0, rollBefore = 0,
       lastTime = Some 0 \<rparr>"


text \<open>
  The scenario of the specification's stillness properties, after an impact at 0 ms with
  level baseline: the device tilts by 250 ms and then lies still at 0.05 rad/s, but for
  the reading at 2000 ms, whose angular rate is the parameter (0.05 for the undisturbed
  scenario, 0.5 for the spike).
\<close>

definition stillness_scenario :: "real \<Rightarrow> reading list" where
  "stillness_scenario gz_at_2000 =
     [reading_at 250 9.81 0 5 0,
      reading_at 500 9.81 0 0 0.05,
      reading_at 1000 9.81 0 0 0.05,
      reading_at 1500 9.81 0 0 0.05,
      reading_at 2000 9.81 0 0 gz_at_2000,
      reading_at 2005 9.81 0 0 0.05,
      reading_at 3500 9.81 0 0 0.05,
      reading_at 3505 9.81 0 0 0.05,
      reading_at 5000 9.81 0 0 0.05,
      reading_at 5005 9.81 0 0 0.05,
      reading_at 5010 9.81 0 0 0.05]"

text \<open>
  Readings from start-up on which the confirmation and the timeout meet: an impact of
  3 g at 1000 ms, a rotation of 1 rad/s about the pitch axis for one second, then
  stillness from 4000 ms on, sampled at 7000 ms and at 7005 ms.
\<close>

definition race_readings :: "reading list" where
  "race_readings =
     [reading_at 1000 29.43 0 0 0,
      reading_at 2000 9.81 0 1 0,
      reading_at 4000 9.81 0 0 0,
      reading_at 7000 9.81 0 0 0,
      reading_at 7005 9.81 0 0 0]"

text \<open>
  Readings from start-up for one impact episode that ends on a pass on which both tests
  hold: an impact of 3 g at 500 ms, a rotation of 1 rad/s about the roll axis for one
  second, then stillness from 3500 ms on (3000 ms after the impact), sampled at 6500 ms
  and at 6505 ms.
\<close>

definition tie_readings :: "reading list" where
  "tie_readings =
     [reading_at 500 29.43 0 0 0,
      reading_at 1500 9.81 1 0 0,
      reading_at 3500 9.81 0 0 0,
      reading_at 6500 9.81 0 0 0,
      reading_at 6505 9.81 0 0 0]"

section \<open>Basic facts\<close>

named_theorems params \<open>values of the tunable parameters\<close>

lemmas [params] =
  SAMPLE_RATE_HZ_def IMPACT_THRESHOLD_G_def ANGLE_THRESHOLD_DEG_def
  MOTION_THRESHOLD_def INACTIVITY_TIME_MS_def IMPACT_TIMEOUT_MS_def

lemma estimate_fields [simp]:
  "state (estimate g e) = state g"
  "impactTime (estimate g e) = impactTime g"
  "stillStartTime (estimate g e) = stillStartTime g"
  "pitchBefore (estimate g e) = pitchBefore g"
  "rollBefore (estimate g e) = rollBefore g"
  "lastSampleMicros (estimate g e) = micros_l54 e"
  "lastTime (estimate g e) = Some (micros_l87 e)"
  by (simp_all add: estimate_def complementary_filter_def)

lemma spin_forever_never: "spin_forever u = Some y \<Longrightarrow> False"
  by (rule spin_forever.raw_induct [where P = "\<lambda>_ _. False"]) blast+

lemma spin_forever_None: "spin_forever u = None"
  using spin_forever_never [of u] by (cases "spin_forever u") auto

lemma accelMag_vertical:
  "accel_x e = 0 \<Longrightarrow> accel_y e = 0 \<Longrightarrow> accelMag e = \<bar>accel_z e\<bar> / 9.81"
  by (simp add: accelMag_def)

lemma pitchAcc_level: "accel_x e = 0 \<Longrightarrow> pitchAcc e = 0"
  by (simp add: pitchAcc_def atan2_def not_less)

lemma rollAcc_level: "accel_y e = 0 \<Longrightarrow> 0 \<le> accel_z e \<Longrightarrow> rollAcc e = 0"
  by (simp add: rollAcc_def atan2_def)

lemma fall_events_simps [simp]:
  "fall_events [] = 0"
  "fall_events (xs @ ys) = fall_events xs + fall_events ys"
  "fall_events triggerFall = 1"
  "fall_events [''IMPACT detected''] = 0"
  by (simp_all add: fall_events_def triggerFall_def)


lemmas eval_defs =
  loop_def state_machine_def stillness_check_def timeout_check_def gate_closed_def
  estimate_def complementary_filter_def dt_def reading_at_def impact_globals_def
  gyroMag_def pitchAcc_level rollAcc_level accelMag_vertical triggerFall_def
  angle_changed_def confirmation_fires_def timeout_fires_def initial_globals_def

subsection \<open>The two checks of IMPACT\_DETECTED\<close>

lemma stillness_check_out:
  "snd (stillness_check g e) = (if confirmation_fires g e then triggerFall else [])"
  by (simp add: stillness_check_def confirmation_fires_def angle_changed_def Let_def)

lemma stillness_check_state:
  "state (fst (stillness_check g e)) = (if confirmation_fires g e then POST_FALL else state g)"
  by (simp add: stillness_check_def confirmation_fires_def angle_changed_def Let_def)

lemma stillness_check_timer:
  "stillStartTime (fst (stillness_check g e)) =
     (if angle_changed g
      then (if gyroMag e < MOTION_THRESHOLD
            then (if stillStartTime g = 0 then millis_l111 e else stillStartTime g)
            else 0)
      else stillStartTime g)"
  by (simp add: stillness_check_def angle_changed_def Let_def)

lemma stillness_check_frame [simp]:
  "impactTime (fst (stillness_check g e)) = impactTime g"
  "pitch (fst (stillness_check g e)) = pitch g"
  "roll (fst (stillness_check g e)) = roll g"
  "pitchBefore (fst (stillness_check g e)) = pitchBefore g"
  "rollBefore (fst (stillness_check g e)) = rollBefore g"
  by (simp_all add: stillness_check_def Let_def)

lemma timeout_check_fields:
  "state (timeout_check g e) = (if timeout_fires g e then NORMAL else state g)"
  "stillStartTime (timeout_check g e) = (if timeout_fires g e then 0 else stillStartTime g)"
  "impactTime (timeout_check g e) = impactTime g"
  "pitch (timeout_check g e) = pitch g"
  "roll (timeout_check g e) = roll g"
  "pitchBefore (timeout_check g e) = pitchBefore g"
  "rollBefore (timeout_check g e) = rollBefore g"
  by (simp_all add: timeout_check_def timeout_fires_def)

lemma timeout_fires_simps [simp]:
  "timeout_fires (fst (stillness_check g e)) e' = timeout_fires g e'"
  "timeout_fires (estimate g e) e' = timeout_fires g e'"
  by (simp_all add: timeout_fires_def)

subsection \<open>One pass, by state\<close>

lemma loop_closed: "gate_closed g e \<Longrightarrow> loop g e = (g, [])"
  by (simp add: loop_def)

lemma loop_impact:
  "state g = IMPACT_DETECTED \<Longrightarrow> \<not> gate_closed g e \<Longrightarrow>
     loop g e = (timeout_check (fst (stillness_check (estimate g e) e)) e,
                 snd (stillness_check (estimate g e) e))"
  by (simp add: loop_def state_machine_def split: prod.split)

lemma loop_impact_state:
  "state g = IMPACT_DETECTED \<Longrightarrow> \<not> gate_closed g e \<Longrightarrow>
     state (after g e) =
       (if timeout_fires g e then NORMAL
        else if confirmation_fires (estimate g e) e then POST_FALL else IMPACT_DETECTED)"
  by (simp add: loop_impact timeout_check_fields stillness_check_state)

lemma loop_impact_printed:
  "state g = IMPACT_DETECTED \<Longrightarrow> \<not> gate_closed g e \<Longrightarrow>
     printed g e = (if confirmation_fires (estimate g e) e then triggerFall else [])"
  by (simp add: loop_impact stillness_check_out)

lemma loop_impact_timer:
  "state g = IMPACT_DETECTED \<Longrightarrow> \<not> gate_closed g e \<Longrightarrow>
     stillStartTime (after g e) =
       (if timeout_fires g e then 0
        else if angle_changed (estimate g e)
             then (if gyroMag e < MOTION_THRESHOLD
                   then (if stillStartTime g = 0 then millis_l111 e else stillStartTime g)
                   else 0)
             else stillStartTime g)"
  by (simp add: loop_impact timeout_check_fields stillness_check_timer)

lemma loop_impact_frame:
  "state g = IMPACT_DETECTED \<Longrightarrow>
     impactTime (after g e) = impactTime g \<and> pitchBefore (after g e) = pitchBefore g \<and>
     rollBefore (after g e) = rollBefore g"
  by (cases "gate_closed g e") (simp_all add: loop_closed loop_impact timeout_check_fields)

lemma state_machine_orientation [simp]:
  "pitch (fst (state_machine g e)) = pitch g"
  "roll (fst (state_machine g e)) = roll g"
  by (simp_all add: state_machine_def timeout_check_fields split: FallState.split prod.split)
    (metis fst_conv stillness_check_frame)+

subsection \<open>Runs\<close>

lemma run_snoc:
  "run g (es @ [e]) = (after (fst (run g es)) e, snd (run g es) @ printed (fst (run g es)) e)"
  by (induction es arbitrary: g) (simp_all add: split_beta)

text \<open>
  The counting step: a pass prints a fall line only when it starts in IMPACT\_DETECTED
  and does not end there.
\<close>

lemma pass_events:
  "fall_events (printed g e) + (if state (after g e) = IMPACT_DETECTED then 1 else 0)
     \<le> (if state g = NORMAL \<and> state (after g e) = IMPACT_DETECTED then 1 else 0)
       + (if state g = IMPACT_DETECTED then 1 else 0)"
proof (cases "gate_closed g e")
  case True
  then show ?thesis by (simp add: loop_closed)
next
  case False
  show ?thesis
  proof (cases "state g")
    case NORMAL
    then show ?thesis using False by (simp add: loop_def state_machine_def)
  next
    case IMPACT_DETECTED
    then show ?thesis
      using False by (simp add: loop_impact_state loop_impact_printed)
  next
    case POST_FALL
    then show ?thesis using False by (simp add: loop_def state_machine_def)
  qed
qed

lemma run_events:
  "fall_events (snd (run g es))
     \<le> impacts g es + (if state g = IMPACT_DETECTED then 1 else 0)"
proof (induction es arbitrary: g)
  case Nil
  then show ?case by simp
next
  case (Cons e es)
  have "fall_events (snd (run g (e # es)))
      = fall_events (printed g e) + fall_events (snd (run (after g e) es))"
    by (simp add: split_beta)
  also have "\<dots> \<le> fall_events (printed g e)
      + (impacts (after g e) es + (if state (after g e) = IMPACT_DETECTED then 1 else 0))"
    using Cons.IH [of "after g e"] by simp
  also have "\<dots> \<le> impacts g (e # es) + (if state g = IMPACT_DETECTED then 1 else 0)"
    using pass_events [of g e] by simp
  finally show ?case .
qed

lemma episode_impacts: "episode g es \<Longrightarrow> impacts g es = 0"
  by (induction es arbitrary: g) simp_all

lemma episode_append:
  "episode g (es @ [e]) \<longleftrightarrow> episode g es \<and> state (fst (run g es)) = IMPACT_DETECTED"
  by (induction es arbitrary: g) (auto simp: split_beta)

lemma episode_inner_quiet:
  "episode g (es @ [e]) \<Longrightarrow> fall_events (snd (run g es)) = 0"
proof (induction es arbitrary: g)
  case Nil
  then show ?case by simp
next
  case (Cons r es)
  from Cons.prems have g: "state g = IMPACT_DETECTED" and nxt: "episode (after g r) (es @ [e])"
    by simp_all
  from nxt have "state (after g r) = IMPACT_DETECTED"
    by (cases es) simp_all
  then have "fall_events (printed g r) = 0"
    using pass_events [of g r] g by simp
  with Cons.IH [OF nxt] show ?case
    by (simp add: split_beta)
qed



subsection \<open>The factor 57.2958 and 180 / pi\<close>

text \<open>
  Partial sums of the arctangent series bracket the arctangent; with Machin's formula
  they bracket \<open>pi\<close> closely enough to tell \<open>180 / pi\<close> from the literal of the sketch.
\<close>

lemma arctan_partial_sums:
  fixes x :: real
  assumes "0 < x" and "x \<le> 1"
  shows "(\<Sum>i<2 * n. (- 1) ^ i * (1 / real (i * 2 + 1) * x ^ (i * 2 + 1))) \<le> arctan x"
    and "arctan x \<le> (\<Sum>i<2 * n + 1. (- 1) ^ i * (1 / real (i * 2 + 1) * x ^ (i * 2 + 1)))"
proof -
  have ax: "\<bar>x\<bar> \<le> 1" using assms by simp
  have pos: "0 < 1 / real (0 * 2 + 1) * x ^ (0 * 2 + 1)" using assms by simp
  from summable_Leibniz(2) [OF zeroseq_arctan_series [OF ax] monoseq_arctan_series [OF ax]] pos
  have "(\<Sum>i. (- 1) ^ i * (1 / real (i * 2 + 1) * x ^ (i * 2 + 1)))
      \<in> {\<Sum>i<2 * n. (- 1) ^ i * (1 / real (i * 2 + 1) * x ^ (i * 2 + 1)) ..
         \<Sum>i<2 * n + 1. (- 1) ^ i * (1 / real (i * 2 + 1) * x ^ (i * 2 + 1))}"
    by blast
  then show "(\<Sum>i<2 * n. (- 1) ^ i * (1 / real (i * 2 + 1) * x ^ (i * 2 + 1))) \<le> arctan x"
    and "arctan x \<le> (\<Sum>i<2 * n + 1. (- 1) ^ i * (1 / real (i * 2 + 1) * x ^ (i * 2 + 1)))"
    by (simp_all add: arctan_series [OF ax])
qed

lemma arctan_fifth_lower: "(6679449362 :: real) / 33837890625 \<le> arctan (1 / 5)"
  using arctan_partial_sums(1) [of "1 / 5" 3]
  by (simp add: eval_nat_numeral)

lemma arctan_fifth_upper: "arctan (1 / 5) \<le> (24288907 :: real) / 123046875"
  using arctan_partial_sums(2) [of "1 / 5" 2]
  by (simp add: eval_nat_numeral)

lemma arctan_239_upper: "arctan (1 / 239) \<le> (1 :: real) / 239"
  using arctan_partial_sums(2) [of "1 / 239" 0] by simp

lemma arctan_239_lower: "(171362 :: real) / 40955757 \<le> arctan (1 / 239)"
  using arctan_partial_sums(1) [of "1 / 239" 1]
  by (simp add: eval_nat_numeral)

lemma pi_lower: "3.1415916 < pi"
proof -
  have "pi = 16 * arctan (1 / 5) - 4 * arctan (1 / 239)"
    using machin by simp
  moreover have "(3.1415916 :: real) < 16 * (6679449362 / 33837890625) - 4 * (1 / 239)"
    by simp
  ultimately show ?thesis
    using arctan_fifth_lower arctan_239_upper by linarith
qed

lemma pi_upper: "pi < 3.1415927"
proof -
  have "pi = 16 * arctan (1 / 5) - 4 * arctan (1 / 239)"
    using machin by simp
  moreover have "16 * (24288907 / 123046875) - 4 * (171362 / 40955757) < (3.1415927 :: real)"
    by simp
  ultimately show ?thesis
    using arctan_fifth_upper arctan_239_lower by linarith
qed

lemma deg_factor_above: "180 / pi < 57.2958"
proof -
  have "180 < 57.2958 * (3.1415916 :: real)" by simp
  also have "\<dots> < 57.2958 * pi" using pi_lower by simp
  finally show ?thesis by (simp add: divide_less_eq)
qed

lemma deg_factor_below: "57.2957 < 180 / pi"
proof -
  have "57.2957 * pi < 57.2957 * (3.1415927 :: real)" using pi_upper by simp
  also have "\<dots> < 180" by simp
  finally show ?thesis by (simp add: less_divide_eq)
qed

subsection \<open>The scenarios, evaluated\<close>

text \<open>
  The undisturbed scenario: the timer starts at 500 ms; nothing is confirmed up to the
  pass at 3500 ms (exactly 3000 ms later, and the test is strict); the pass at 3505 ms
  confirms. With the spike at 2000 ms the timer is cleared there and starts again at
  2005 ms; nothing is confirmed up to the pass at 5005 ms, and the pass at 5010 ms confirms.
\<close>

lemma restart_example:
  "fall_events (snd (run (impact_globals 0 0 0) (take 7 (stillness_scenario 0.05)))) = 0"
  "snd (run (impact_globals 0 0 0) (take 8 (stillness_scenario 0.05))) = [''!!! FALL DETECTED !!!'']"
  "stillStartTime (fst (run (impact_globals 0 0 0) (take 4 (stillness_scenario 0.5)))) = 500"
  "stillStartTime (fst (run (impact_globals 0 0 0) (take 5 (stillness_scenario 0.5)))) = 0"
  "stillStartTime (fst (run (impact_globals 0 0 0) (take 6 (stillness_scenario 0.5)))) = 2005"
  "snd (run (impact_globals 0 0 0) (take 10 (stillness_scenario 0.5))) = []"
  "state (fst (run (impact_globals 0 0 0) (take 10 (stillness_scenario 0.5)))) = IMPACT_DETECTED"
  "snd (run (impact_globals 0 0 0) (stillness_scenario 0.5)) = [''!!! FALL DETECTED !!!'']"
  "state (fst (run (impact_globals 0 0 0) (stillness_scenario 0.5))) = POST_FALL"
  by (simp_all add: stillness_scenario_def eval_defs params)

subsection \<open>The baseline fields\<close>

text \<open>Only the pass that enters IMPACT\_DETECTED from NORMAL writes the baseline fields.\<close>

lemma baseline_kept:
  assumes "\<not> (state g = NORMAL \<and> state (after g e) = IMPACT_DETECTED)"
  shows "impactTime (after g e) = impactTime g \<and> pitchBefore (after g e) = pitchBefore g \<and>
         rollBefore (after g e) = rollBefore g"
proof (cases "gate_closed g e")
  case True
  then show ?thesis by (simp add: loop_closed)
next
  case False
  show ?thesis
  proof (cases "state g")
    case NORMAL
    then show ?thesis
      using False assms by (simp add: loop_def state_machine_def split: if_splits)
  next
    case IMPACT_DETECTED
    then show ?thesis by (rule loop_impact_frame)
  next
    case POST_FALL
    then show ?thesis using False by (simp add: loop_def state_machine_def)
  qed
qed

lemma baseline_kept_run:
  "impacts g es = 0 \<Longrightarrow>
     impactTime (fst (run g es)) = impactTime g \<and>
     pitchBefore (fst (run g es)) = pitchBefore g \<and>
     rollBefore (fst (run g es)) = rollBefore g"
proof (induction es arbitrary: g)
  case Nil
  then show ?case by simp
next
  case (Cons e es)
  from Cons.prems have quiet: "\<not> (state g = NORMAL \<and> state (after g e) = IMPACT_DETECTED)"
    and rest: "impacts (after g e) es = 0"
    by (simp_all split: if_splits)
  from baseline_kept [OF quiet] Cons.IH [OF rest] show ?case
    by (simp add: split_beta)
qed

lemma post_fall_timer:
  assumes "state g = POST_FALL"
  shows "(state (after g e) = NORMAL \<longrightarrow> stillStartTime (after g e) = 0) \<and>
         (state (after g e) \<noteq> NORMAL \<longrightarrow>
            state (after g e) = POST_FALL \<and> stillStartTime (after g e) = stillStartTime g)"
  using assms by (cases "gate_closed g e") (simp_all add: loop_def state_machine_def)

section \<open>The claims\<close>

subsection \<open>Leaving IMPACT\_DETECTED\<close>

text \<open>
  Claim C2, as the specification states it: on every transition away from ImpactDetected,
  \<open>impactTimestamp\<close>, \<open>baselinePitch\<close>, \<open>baselineRoll\<close> and \<open>stillSinceTimestamp\<close> are
  all reset to empty. The code does not do that. On the timeout transition (first four
  conjuncts) \<open>impactTime\<close> keeps the time of the impact; on the confirmation transition
  (last four conjuncts) \<open>stillStartTime\<close> keeps the start of the stillness timer.
\<close>

theorem leaving_impact_fields_counterexample:
  "state (impact_globals 1000 4000 10) = IMPACT_DETECTED \<and>
   state (after (impact_globals 1000 4000 10) (reading_at 7005 9.81 0 0 0)) = NORMAL \<and>
   impactTime (after (impact_globals 1000 4000 10) (reading_at 7005 9.81 0 0 0)) = 1000 \<and>
   \<not> spec_aux_fields_cleared (after (impact_globals 1000 4000 10) (reading_at 7005 9.81 0 0 0)) \<and>
   state (impact_globals 1000 3000 60) = IMPACT_DETECTED \<and>
   state (after (impact_globals 1000 3000 60) (reading_at 6500 9.81 0 0 0)) = POST_FALL \<and>
   stillStartTime (after (impact_globals 1000 3000 60) (reading_at 6500 9.81 0 0 0)) = 3000 \<and>
   \<not> spec_aux_fields_cleared (after (impact_globals 1000 3000 60) (reading_at 6500 9.81 0 0 0))"
  by (simp add: eval_defs params spec_aux_fields_cleared_def)

text \<open>
  Claim C2, amended to what the code does. A pass that leaves IMPACT\_DETECTED does not
  change \<open>impactTime\<close>, \<open>pitchBefore\<close> or \<open>rollBefore\<close>. It leaves to NORMAL only by
  the timeout, and then \<open>stillStartTime\<close> is reset to 0; it leaves to POST\_FALL only by
  a confirmation, and then \<open>stillStartTime\<close> keeps the start of the stillness timer.
  The three baseline fields are never reset: no pass changes them but the one that enters
  IMPACT\_DETECTED from NORMAL, which overwrites them, so over any run without such a pass
  they are what they were. In POST\_FALL \<open>stillStartTime\<close> is kept until the pass that
  returns to NORMAL, which resets it to 0.
\<close>

theorem leaving_impact_fields:
  "(state g = IMPACT_DETECTED \<and> state (after g e) \<noteq> IMPACT_DETECTED \<longrightarrow>
      impactTime (after g e) = impactTime g \<and>
      pitchBefore (after g e) = pitchBefore g \<and>
      rollBefore (after g e) = rollBefore g \<and>
      (state (after g e) = NORMAL \<longrightarrow> timeout_fires g e \<and> stillStartTime (after g e) = 0) \<and>
      (state (after g e) = POST_FALL \<longrightarrow>
         confirmation_fires (estimate g e) e \<and>
         stillStartTime (after g e) =
           (if stillStartTime g = 0 then millis_l111 e else stillStartTime g))) \<and>
   (\<not> (state g = NORMAL \<and> state (after g e) = IMPACT_DETECTED) \<longrightarrow>
      impactTime (after g e) = impactTime g \<and>
      pitchBefore (after g e) = pitchBefore g \<and>
      rollBefore (after g e) = rollBefore g) \<and>
   (impacts g es = 0 \<longrightarrow>
      impactTime (fst (run g es)) = impactTime g \<and>
      pitchBefore (fst (run g es)) = pitchBefore g \<and>
      rollBefore (fst (run g es)) = rollBefore g) \<and>
   (state g = NORMAL \<and> state (after g e) = IMPACT_DETECTED \<longrightarrow>
      impactTime (after g e) = millis_l97 e \<and>
      pitchBefore (after g e) = pitch (after g e) \<and>
      rollBefore (after g e) = roll (after g e)) \<and>
   (state g = POST_FALL \<and> state (after g e) = NORMAL \<longrightarrow> stillStartTime (after g e) = 0) \<and>
   (state g = POST_FALL \<and> state (after g e) \<noteq> NORMAL \<longrightarrow>
      state (after g e) = POST_FALL \<and> stillStartTime (after g e) = stillStartTime g)"
proof -
  have leaving:
    "state g = IMPACT_DETECTED \<and> state (after g e) \<noteq> IMPACT_DETECTED \<longrightarrow>
      impactTime (after g e) = impactTime g \<and>
      pitchBefore (after g e) = pitchBefore g \<and>
      rollBefore (after g e) = rollBefore g \<and>
      (state (after g e) = NORMAL \<longrightarrow> timeout_fires g e \<and> stillStartTime (after g e) = 0) \<and>
      (state (after g e) = POST_FALL \<longrightarrow>
         confirmation_fires (estimate g e) e \<and>
         stillStartTime (after g e) =
           (if stillStartTime g = 0 then millis_l111 e else stillStartTime g))"
  proof
    assume "state g = IMPACT_DETECTED \<and> state (after g e) \<noteq> IMPACT_DETECTED"
    then have st: "state g = IMPACT_DETECTED" and lv: "state (after g e) \<noteq> IMPACT_DETECTED"
      by simp_all
    have open_gate: "\<not> gate_closed g e"
      using st lv by (auto simp: loop_closed)
    show "impactTime (after g e) = impactTime g \<and>
      pitchBefore (after g e) = pitchBefore g \<and>
      rollBefore (after g e) = rollBefore g \<and>
      (state (after g e) = NORMAL \<longrightarrow> timeout_fires g e \<and> stillStartTime (after g e) = 0) \<and>
      (state (after g e) = POST_FALL \<longrightarrow>
         confirmation_fires (estimate g e) e \<and>
         stillStartTime (after g e) =
           (if stillStartTime g = 0 then millis_l111 e else stillStartTime g))"
      using lv loop_impact_frame [OF st, of e]
      by (auto simp: loop_impact_state [OF st open_gate]
          loop_impact_timer [OF st open_gate] confirmation_fires_def
          split: if_splits)
  qed
  have kept:
    "\<not> (state g = NORMAL \<and> state (after g e) = IMPACT_DETECTED) \<longrightarrow>
      impactTime (after g e) = impactTime g \<and>
      pitchBefore (after g e) = pitchBefore g \<and>
      rollBefore (after g e) = rollBefore g"
    using baseline_kept [of g e] by blast
  have kept_run:
    "impacts g es = 0 \<longrightarrow>
      impactTime (fst (run g es)) = impactTime g \<and>
      pitchBefore (fst (run g es)) = pitchBefore g \<and>
      rollBefore (fst (run g es)) = rollBefore g"
    using baseline_kept_run [of g es] by blast
  have overwritten:
    "state g = NORMAL \<and> state (after g e) = IMPACT_DETECTED \<longrightarrow>
      impactTime (after g e) = millis_l97 e \<and>
      pitchBefore (after g e) = pitch (after g e) \<and>
      rollBefore (after g e) = roll (after g e)"
  proof
    assume "state g = NORMAL \<and> state (after g e) = IMPACT_DETECTED"
    then have st: "state g = NORMAL" and en: "state (after g e) = IMPACT_DETECTED"
      by simp_all
    have open_gate: "\<not> gate_closed g e"
      using st en by (auto simp: loop_closed)
    show "impactTime (after g e) = millis_l97 e \<and>
      pitchBefore (after g e) = pitch (after g e) \<and>
      rollBefore (after g e) = roll (after g e)"
      using st en open_gate by (simp add: loop_def state_machine_def split: if_splits)
  qed
  have reset:
    "state g = POST_FALL \<and> state (after g e) = NORMAL \<longrightarrow> stillStartTime (after g e) = 0"
    using post_fall_timer [of g e] by blast
  have waiting:
    "state g = POST_FALL \<and> state (after g e) \<noteq> NORMAL \<longrightarrow>
      state (after g e) = POST_FALL \<and> stillStartTime (after g e) = stillStartTime g"
    using post_fall_timer [of g e] by blast
  show ?thesis
    by (rule conjI [OF leaving conjI [OF kept conjI [OF kept_run
          conjI [OF overwritten conjI [OF reset waiting]]]]])
qed

theorem leaving_impact_fields_witness:
  "state (impact_globals 1000 3000 60) = IMPACT_DETECTED \<and>
   state (after (impact_globals 1000 3000 60) (reading_at 6500 9.81 0 0 0)) = POST_FALL \<and>
   impactTime (after (impact_globals 1000 3000 60) (reading_at 6500 9.81 0 0 0)) = 1000 \<and>
   stillStartTime (after (impact_globals 1000 3000 60) (reading_at 6500 9.81 0 0 0)) = 3000 \<and>
   impacts (impact_globals 1000 3000 60)
     [reading_at 6500 9.81 0 0 0, reading_at 6600 9.81 0 0 0, reading_at 6700 9.81 0 0 0.4] = 0 \<and>
   impactTime (fst (run (impact_globals 1000 3000 60)
     [reading_at 6500 9.81 0 0 0, reading_at 6600 9.81 0 0 0, reading_at 6700 9.81 0 0 0.4])) = 1000 \<and>
   state (after (after (impact_globals 1000 3000 60) (reading_at 6500 9.81 0 0 0))
            (reading_at 6700 9.81 0 0 0.4)) = NORMAL \<and>
   stillStartTime (after (after (impact_globals 1000 3000 60) (reading_at 6500 9.81 0 0 0))
            (reading_at 6700 9.81 0 0 0.4)) = 0"
proof -
  let ?g = "impact_globals 1000 3000 60"
  let ?g1 = "after ?g (reading_at 6500 9.81 0 0 0)"
  let ?es = "[reading_at 6500 9.81 0 0 0, reading_at 6600 9.81 0 0 0, reading_at 6700 9.81 0 0 0.4]"
  have h1: "state ?g = IMPACT_DETECTED"
    by (simp add: impact_globals_def)
  have h2: "state ?g1 = POST_FALL"
    by (simp add: eval_defs params)
  have h3: "impacts ?g ?es = 0"
    by (simp add: eval_defs params)
  have h4: "state (after ?g1 (reading_at 6700 9.81 0 0 0.4)) = NORMAL"
    by (simp add: eval_defs params)
  have h5: "impactTime ?g = 1000" "stillStartTime ?g = 3000"
    by (simp_all add: impact_globals_def)
  have leave: "impactTime ?g1 = impactTime ?g \<and>
      stillStartTime ?g1 = (if stillStartTime ?g = 0 then millis_l111 (reading_at 6500 9.81 0 0 0)
                            else stillStartTime ?g)"
    using h1 h2 leaving_impact_fields [of ?g "reading_at 6500 9.81 0 0 0" ?es] by simp
  have kept: "impactTime (fst (run ?g ?es)) = impactTime ?g"
    using h3 leaving_impact_fields [of ?g "reading_at 6500 9.81 0 0 0" ?es] by blast
  have reset: "stillStartTime (after ?g1 (reading_at 6700 9.81 0 0 0.4)) = 0"
    using h2 h4 leaving_impact_fields [of ?g1 "reading_at 6700 9.81 0 0 0.4" "[]"] by blast
  show ?thesis
    using h1 h2 h3 h4 h5 leave kept reset by simp
qed

subsection \<open>Confirmation and timeout on the same pass\<close>



subsection \<open>Fall events and episodes\<close>

text \<open>
  The first half of claim C1 holds: over every run, from any state, the number of fall
  lines is at most the number of passes that enter IMPACT\_DETECTED from NORMAL, plus one
  when the run starts inside an episode (lemma \<open>run_events\<close>), so a stretch of passes
  that all start in IMPACT\_DETECTED prints at most one.
\<close>

lemma episode_events: "episode g es \<Longrightarrow> fall_events (snd (run g es)) \<le> 1"
  using run_events [of g es] by (simp add: episode_impacts split: if_splits)

text \<open>
  Claim C1, second half: an episode in which the impact times out before the stillness
  confirmation emits no fall event at all. The sketch breaks it. In the run below, from
  start-up, the first pass enters IMPACT\_DETECTED and the other four make one episode
  with no further impact. The machine is in IMPACT\_DETECTED after each pass but the last
  and is never left in POST\_FALL: the episode ends in NORMAL, by the timeout test of
  line 122 on the last pass. Yet that pass has printed the fall line, because the
  confirmation test of line 113 runs first and the timeout test is not guarded against it.
\<close>

theorem episode_timeout_race:
  "map (\<lambda>n. state (fst (run initial_globals (take n tie_readings)))) [0, 1, 2, 3, 4, 5]
     = [NORMAL, IMPACT_DETECTED, IMPACT_DETECTED, IMPACT_DETECTED, IMPACT_DETECTED, NORMAL] \<and>
   episode (after initial_globals (hd tie_readings)) (tl tie_readings) \<and>
   impacts (after initial_globals (hd tie_readings)) (tl tie_readings) = 0 \<and>
   timeout_fires (fst (run initial_globals (butlast tie_readings))) (last tie_readings) \<and>
   fall_events (snd (run initial_globals (butlast tie_readings))) = 0 \<and>
   printed (fst (run initial_globals (butlast tie_readings))) (last tie_readings)
     = [''!!! FALL DETECTED !!!''] \<and>
   fall_events (snd (run (after initial_globals (hd tie_readings)) (tl tie_readings))) = 1"
  by (simp add: tie_readings_def eval_defs params fall_events_def)

subsection \<open>The timeout window\<close>

text \<open>
  Claim C3 says that when no confirmation occurs before the impact timeout, the machine
  is back in NORMAL just after it and no fall event was emitted. The run below, from
  start-up, has its impact at 1000 ms. Up to and including the pass at 7000 ms
  (the end of the window) the machine is in IMPACT\_DETECTED and no fall line has been
  printed. The next pass, at 7005 ms, is the pass that returns to NORMAL, and it prints
  the fall line: the confirmation test of line 113 runs before the timeout test of
  line 122, and the latter only overwrites the state.
\<close>

theorem timeout_race:
  "state (fst (run initial_globals (butlast race_readings))) = IMPACT_DETECTED \<and>
   impactTime (fst (run initial_globals (butlast race_readings))) = 1000 \<and>
   fall_events (snd (run initial_globals (butlast race_readings))) = 0 \<and>
   state (fst (run initial_globals race_readings)) = NORMAL \<and>
   snd (run initial_globals race_readings) = [''IMPACT detected'', ''!!! FALL DETECTED !!!''] \<and>
   fall_events (snd (run initial_globals race_readings)) = 1"
  by (simp add: race_readings_def eval_defs params fall_events_def)

subsection \<open>Motion restarts the stillness timer\<close>



subsection \<open>The angle condition and the stillness timer\<close>




subsection \<open>The orientation update\<close>

text \<open>
  Claim C7, as stated, has the factor \<open>180 / pi\<close> in the accelerometer angles and in the
  integration of the angular rate. The sketch multiplies by the literal 57.2958, which is
  not \<open>180 / pi\<close>. After a rotation of 1 rad/s about the pitch axis for one second from
  level, the sketch stores a pitch of 56.149884 degrees, which is not the
  specification's value.
\<close>

theorem orientation_update_counterexample:
  "\<not> gate_closed (initial_globals \<lparr> lastTime := Some 0 \<rparr>) (reading_at 1000 9.81 0 1 0) \<and>
   dt (initial_globals \<lparr> lastTime := Some 0 \<rparr>) (reading_at 1000 9.81 0 1 0) = 1 \<and>
   pitch (after (initial_globals \<lparr> lastTime := Some 0 \<rparr>) (reading_at 1000 9.81 0 1 0)) = 56.149884 \<and>
   pitch (after (initial_globals \<lparr> lastTime := Some 0 \<rparr>) (reading_at 1000 9.81 0 1 0))
     \<noteq> spec_pitch (pitch (initial_globals \<lparr> lastTime := Some 0 \<rparr>)) (reading_at 1000 9.81 0 1 0)
         (dt (initial_globals \<lparr> lastTime := Some 0 \<rparr>) (reading_at 1000 9.81 0 1 0))"
proof -
  have code: "pitch (after (initial_globals \<lparr> lastTime := Some 0 \<rparr>) (reading_at 1000 9.81 0 1 0))
      = 56.149884"
    by (simp add: eval_defs params)
  have elapsed: "dt (initial_globals \<lparr> lastTime := Some 0 \<rparr>) (reading_at 1000 9.81 0 1 0) = 1"
    by (simp add: eval_defs)
  have spec: "spec_pitch (pitch (initial_globals \<lparr> lastTime := Some 0 \<rparr>))
      (reading_at 1000 9.81 0 1 0) 1 = 0.98 * (180 / pi)"
    by (simp add: spec_pitch_def atan2_def reading_at_def initial_globals_def)
  have "0.98 * (180 / pi) < 0.98 * (57.2958 :: real)"
    using deg_factor_above by simp
  then have differ: "(56.149884 :: real) \<noteq> 0.98 * (180 / pi)"
    by simp
  have gate: "\<not> gate_closed (initial_globals \<lparr> lastTime := Some 0 \<rparr>) (reading_at 1000 9.81 0 1 0)"
    by (simp add: eval_defs params)
  show ?thesis
    using code elapsed spec differ gate by simp
qed

text \<open>
  Claim C7, amended: on every pass that the gate lets through, the stored pitch is
  \<open>0.98 * (pitch + gyro_y * dt * 57.2958) + 0.02 * pitchAcc\<close> with
  \<open>pitchAcc = atan2 (ax, sqrt (ay^2 + az^2)) * 57.2958\<close>, and the stored roll is
  \<open>0.98 * (roll + gyro_x * dt * 57.2958) + 0.02 * rollAcc\<close> with
  \<open>rollAcc = atan2 (ay, az) * 57.2958\<close>, where \<open>dt\<close> is the elapsed time in seconds
  between the clock readings of line 86 and of the previous pass. The literal 57.2958 lies within 0.0001 of
  \<open>180 / pi\<close>, above it.
\<close>

theorem orientation_update:
  "(\<not> gate_closed g e \<longrightarrow>
      pitch (after g e) =
        0.98 * (pitch g + gyro_y e * dt g e * 57.2958)
        + 0.02 * (atan2 (accel_x e) (sqrt ((accel_y e)\<^sup>2 + (accel_z e)\<^sup>2)) * 57.2958) \<and>
      roll (after g e) =
        0.98 * (roll g + gyro_x e * dt g e * 57.2958)
        + 0.02 * (atan2 (accel_y e) (accel_z e) * 57.2958)) \<and>
   57.2957 < 180 / pi \<and> 180 / pi < 57.2958"
  using deg_factor_above deg_factor_below
  by (simp add: loop_def estimate_def complementary_filter_def dt_def pitchAcc_def rollAcc_def
      power2_eq_square)

theorem orientation_update_witness:
  "\<not> gate_closed (initial_globals \<lparr> lastTime := Some 0 \<rparr>) (reading_at 1000 9.81 0 1 0) \<and>
   pitch (after (initial_globals \<lparr> lastTime := Some 0 \<rparr>) (reading_at 1000 9.81 0 1 0)) = 56.149884 \<and>
   roll (after (initial_globals \<lparr> lastTime := Some 0 \<rparr>) (reading_at 1000 9.81 0 1 0)) = 0"
proof -
  have gate: "\<not> gate_closed (initial_globals \<lparr> lastTime := Some 0 \<rparr>) (reading_at 1000 9.81 0 1 0)"
    by (simp add: eval_defs params)
  have elapsed: "dt (initial_globals \<lparr> lastTime := Some 0 \<rparr>) (reading_at 1000 9.81 0 1 0) = 1"
    by (simp add: eval_defs)
  show ?thesis
    using gate elapsed
      orientation_update [of "initial_globals \<lparr> lastTime := Some 0 \<rparr>" "reading_at 1000 9.81 0 1 0"]
    by (simp add: reading_at_def initial_globals_def atan2_def)
qed

subsection \<open>A failed initialisation\<close>

text \<open>
  Claim C8 says that a failed sensor initialisation is surfaced to the caller as an
  error instead of looping forever. The sketch does loop forever: when \<open>mpu.begin()\<close>
  fails, \<open>setup()\<close> prints its message and never returns.
\<close>

theorem failed_setup_counterexample: "setup_fn False = ([''MPU6050 not found!''], None)"
  by (simp add: setup_fn_def spin_forever_None)

text \<open>
  Claim C8, amended: when \<open>mpu.begin()\<close> fails the sketch prints the line
  \<open>MPU6050 not found!\<close> and then never returns from \<open>setup()\<close>: whatever readings would
  follow, that line is the whole output, no pass of \<open>loop()\<close> is made and nothing is
  returned to the caller. When \<open>mpu.begin()\<close> succeeds, \<open>setup()\<close> prints
  \<open>Fall detection ready\<close> and returns, and the passes run from the initial globals.
\<close>

theorem failed_setup_never_returns:
  "sketch False es = ([''MPU6050 not found!''], None) \<and>
   sketch True es =
     (''Fall detection ready'' # snd (run initial_globals es), Some (fst (run initial_globals es)))"
  by (simp add: sketch_def setup_fn_def spin_forever_None split_beta)

end
